theory Spec2Isabelle
  imports Main
begin

section \<open>JavaScript values and text\<close>

text \<open>
  Text is a \<^typ>\<open>string\<close>; the model follows the source on ASCII text (bytes above 127
  are carried through unchanged and are never white space, letters or line ends).
  A number is an integer that a double holds exactly; other numbers are outside the model.
  An object is the list of its own enumerable properties in enumeration order.
\<close>

datatype jsval =
    JUndefined
  | JNull
  | JBool bool
  | JNum int
  | JStr string
  | JArr "jsval list"
  | JObj "(string \<times> jsval) list"

text \<open>
  What an operation of the program does: it returns a value, it throws, or it leaves the
  fragment of JavaScript that is modelled (a name found only on a built-in prototype, a
  numeric text that is not a short run of decimal digits).
\<close>

datatype 'a outcome = Returns 'a | Throws | Unmodelled

fun bind :: "'a outcome \<Rightarrow> ('a \<Rightarrow> 'b outcome) \<Rightarrow> 'b outcome" where
  "bind (Returns x) f = f x"
| "bind Throws f = Throws"
| "bind Unmodelled f = Unmodelled"

fun truthy :: "jsval \<Rightarrow> bool" where
  "truthy JUndefined = False"
| "truthy JNull = False"
| "truthy (JBool b) = b"
| "truthy (JNum n) = (n \<noteq> 0)"
| "truthy (JStr s) = (s \<noteq> [])"
| "truthy (JArr xs) = True"
| "truthy (JObj kvs) = True"

text \<open>\<open>a || b\<close>\<close>

definition js_or :: "jsval \<Rightarrow> jsval \<Rightarrow> jsval" where
  "js_or a b = (if truthy a then a else b)"

text \<open>White space of \<open>trim\<close> and of the pattern \<open>\s\<close>; the line ends that \<open>.\<close> refuses.\<close>

definition is_space :: "char \<Rightarrow> bool" where
  "is_space c = (c \<in> set [CHR 0x09, CHR 0x0A, CHR 0x0B, CHR 0x0C, CHR 0x0D, CHR '' ''])"

definition is_line_end :: "char \<Rightarrow> bool" where
  "is_line_end c = (c = CHR 0x0A \<or> c = CHR 0x0D)"

definition trim :: "string \<Rightarrow> string" where
  "trim s = rev (dropWhile is_space (rev (dropWhile is_space s)))"

text \<open>\<open>s.split(c)\<close> for a one-character separator: always at least one piece.\<close>

fun split_on :: "char \<Rightarrow> string \<Rightarrow> string list" where
  "split_on c [] = [[]]"
| "split_on c (x # xs) =
     (if x = c then [] # split_on c xs
      else (case split_on c xs of
              [] \<Rightarrow> [[x]]
            | p # ps \<Rightarrow> (x # p) # ps))"

definition startsWith :: "string \<Rightarrow> string \<Rightarrow> bool" where
  "startsWith s p = (take (length p) s = p)"

definition endsWith :: "string \<Rightarrow> string \<Rightarrow> bool" where
  "endsWith s p = (length p \<le> length s \<and> drop (length s - length p) s = p)"

fun js_includes :: "string \<Rightarrow> string \<Rightarrow> bool" where
  "js_includes [] p = (p = [])"
| "js_includes (x # xs) p = (startsWith (x # xs) p \<or> js_includes xs p)"

text \<open>Own properties of an object: lookup, and assignment that keeps the position of a key.\<close>

fun own :: "(string \<times> jsval) list \<Rightarrow> string \<Rightarrow> jsval option" where
  "own [] k = None"
| "own ((k', v) # kvs) k = (if k' = k then Some v else own kvs k)"

fun put :: "string \<Rightarrow> jsval \<Rightarrow> (string \<times> jsval) list \<Rightarrow> (string \<times> jsval) list" where
  "put k v [] = [(k, v)]"
| "put k v ((k', v') # kvs) = (if k' = k then (k, v) # kvs else (k', v') # put k v kvs)"

text \<open>
  \<open>x.k\<close> and \<open>x?.k\<close> for the property names the analyzer reads from manifest data
  (none of them is a property of a built-in prototype): the own property of an object,
  \<open>undefined\<close> on any other value. Reading \<open>x.k\<close> throws when \<open>x\<close> is \<open>null\<close> or
  \<open>undefined\<close>; that case is written out where the source can reach it.
\<close>

fun get_prop :: "jsval \<Rightarrow> string \<Rightarrow> jsval" where
  "get_prop (JObj kvs) k = (case own kvs k of Some v \<Rightarrow> v | None \<Rightarrow> JUndefined)"
| "get_prop v k = JUndefined"

section \<open>parseToml\<close>

text \<open>
  Names that a plain object or a primitive resolves through its prototype chain
  (\<open>Object.prototype\<close>, \<open>String.prototype\<close>, \<open>Number.prototype\<close>,
  \<open>Boolean.prototype\<close>). The parser reads \<open>currentSection[part]\<close> for any text between
  brackets, so such a name reaches a built-in function; the model stops there.
\<close>

definition inherited_names :: "string list" where
  "inherited_names =
    [''constructor'', ''__proto__'', ''__defineGetter__'', ''__defineSetter__'',
     ''__lookupGetter__'', ''__lookupSetter__'', ''hasOwnProperty'', ''isPrototypeOf'',
     ''propertyIsEnumerable'', ''toLocaleString'', ''toString'', ''valueOf'',
     ''length'', ''anchor'', ''at'', ''big'', ''blink'', ''bold'', ''charAt'', ''charCodeAt'',
     ''codePointAt'', ''concat'', ''endsWith'', ''fixed'', ''fontcolor'', ''fontsize'',
     ''includes'', ''indexOf'', ''isWellFormed'', ''italics'', ''lastIndexOf'', ''link'',
     ''localeCompare'', ''match'', ''matchAll'', ''normalize'', ''padEnd'', ''padStart'',
     ''repeat'', ''replace'', ''replaceAll'', ''search'', ''slice'', ''small'', ''split'',
     ''startsWith'', ''strike'', ''sub'', ''substr'', ''substring'', ''sup'',
     ''toLocaleLowerCase'', ''toLocaleUpperCase'', ''toLowerCase'', ''toUpperCase'',
     ''toWellFormed'', ''trim'', ''trimEnd'', ''trimLeft'', ''trimRight'', ''trimStart'',
     ''toExponential'', ''toFixed'', ''toPrecision'']"

definition is_digit :: "char \<Rightarrow> bool" where
  "is_digit c = (c \<in> set ''0123456789'')"

definition off_model_name :: "string \<Rightarrow> bool" where
  "off_model_name p = (p \<in> set inherited_names \<or> (p \<noteq> [] \<and> list_all is_digit p))"

text \<open>
  \<open>currentSection\<close> is a reference into \<open>result\<close>, a primitive found on the way down
  a section path, or \<open>undefined\<close>. A reference is the path of keys from the root:
  the parser never replaces an object that lies on the path to the current section.
\<close>

datatype section_ref = AtPath "string list" | Prim jsval | Undef

fun get_path :: "string list \<Rightarrow> jsval \<Rightarrow> jsval" where
  "get_path [] v = v"
| "get_path (p # ps) (JObj kvs) =
     (case own kvs p of Some c \<Rightarrow> get_path ps c | None \<Rightarrow> JUndefined)"
| "get_path (p # ps) v = JUndefined"

fun set_path :: "string list \<Rightarrow> string \<Rightarrow> jsval \<Rightarrow> jsval \<Rightarrow> jsval" where
  "set_path [] k v (JObj kvs) = JObj (put k v kvs)"
| "set_path (p # ps) k v (JObj kvs) =
     (case own kvs p of
        Some c \<Rightarrow> JObj (put p (set_path ps k v c) kvs)
      | None \<Rightarrow> JObj kvs)"
| "set_path ps k v x = x"

text \<open>
  The loop over the parts of a section name:
  \<open>if (!currentSection[part]) currentSection[part] = {}; currentSection = currentSection[part]\<close>.
  The file is not in strict mode, so assigning a property of a primitive does nothing,
  and reading a property of \<open>undefined\<close> throws.
\<close>

fun descend :: "string list \<Rightarrow> jsval \<times> section_ref \<Rightarrow> (jsval \<times> section_ref) outcome" where
  "descend [] st = Returns st"
| "descend (part # parts) (res, AtPath p) =
     (case get_path p res of
        JObj kvs \<Rightarrow>
          (case own kvs part of
             Some v \<Rightarrow>
               if truthy v then
                 (case v of
                    JObj kvs' \<Rightarrow> descend parts (res, AtPath (p @ [part]))
                  | _ \<Rightarrow> descend parts (res, Prim v))
               else descend parts (set_path p part (JObj []) res, AtPath (p @ [part]))
           | None \<Rightarrow>
               if part \<in> set inherited_names then Unmodelled
               else descend parts (set_path p part (JObj []) res, AtPath (p @ [part])))
      | _ \<Rightarrow> Unmodelled)"
| "descend (part # parts) (res, Prim v) =
     (if off_model_name part then Unmodelled else descend parts (res, Undef))"
| "descend (part # parts) (res, Undef) = Throws"

text \<open>\<open>currentSection[key] = value\<close>\<close>

fun assign :: "string \<Rightarrow> jsval \<Rightarrow> jsval \<times> section_ref \<Rightarrow> (jsval \<times> section_ref) outcome" where
  "assign key v (res, AtPath p) =
     (if key = ''__proto__'' then Unmodelled else Returns (set_path p key v res, AtPath p))"
| "assign key v (res, Prim x) = Returns (res, Prim x)"
| "assign key v (res, Undef) = Throws"

text \<open>\<open>/^\[([^\]]+)\]$/\<close>: the text between the brackets.\<close>

definition section_match :: "string \<Rightarrow> string option" where
  "section_match t =
     (case t of
        [] \<Rightarrow> None
      | c # rest \<Rightarrow>
          if c = CHR ''['' \<and> rest \<noteq> [] \<and> last rest = CHR '']''
             \<and> butlast rest \<noteq> [] \<and> CHR '']'' \<notin> set (butlast rest)
          then Some (butlast rest) else None)"

text \<open>
  \<open>/^([^=]+)=\s*(.+)$/\<close>: the text before the first \<open>=\<close>, which is not empty, and the
  rest of the line after the white space that follows the \<open>=\<close>; \<open>.\<close> takes no line end.
  When only white space follows the \<open>=\<close>, the pattern gives the last character to
  the second group.
\<close>

definition kv_match :: "string \<Rightarrow> (string \<times> string) option" where
  "kv_match t =
     (let k = takeWhile (\<lambda>c. c \<noteq> CHR ''='') t;
          r = dropWhile (\<lambda>c. c \<noteq> CHR ''='') t
      in if k = [] \<or> r = [] then None
         else
           (let rest = tl r; body = dropWhile is_space rest
            in if body \<noteq> [] then
                 (if list_ex is_line_end body then None else Some (k, body))
               else if rest \<noteq> [] \<and> \<not> is_line_end (last rest) then Some (k, [last rest])
               else None))"

text \<open>
  \<open>!isNaN(value)\<close> and \<open>Number(value)\<close> on a text that is not empty: a run of at most
  15 decimal digits is the number it writes; a text with a character that no numeric
  literal contains is not a number; any other text is outside the model.
\<close>

definition numeric_chars :: "string" where
  "numeric_chars = ''0123456789+-.eExXoObBaAcCdDfFInity''"

definition digit_val :: "char \<Rightarrow> int" where
  "digit_val c = int (of_char c) - 48"

definition decimal :: "string \<Rightarrow> int" where
  "decimal s = foldl (\<lambda>n c. 10 * n + digit_val c) 0 s"

definition coerce :: "string \<Rightarrow> jsval outcome" where
  "coerce v =
     (if startsWith v ''\"'' \<and> endsWith v ''\"'' then Returns (JStr (butlast (tl v)))
      else if startsWith v [CHR 0x27] \<and> endsWith v [CHR 0x27] then Returns (JStr (butlast (tl v)))
      else if v = ''true'' then Returns (JBool True)
      else if v = ''false'' then Returns (JBool False)
      else if v \<noteq> [] \<and> list_all is_digit v \<and> length v \<le> 15 then Returns (JNum (decimal v))
      else if list_ex (\<lambda>c. c \<notin> set numeric_chars) v then Returns (JStr v)
      else Unmodelled)"

definition toml_line :: "string \<Rightarrow> jsval \<times> section_ref \<Rightarrow> (jsval \<times> section_ref) outcome" where
  "toml_line line st =
     (let trimmed = trim line
      in if trimmed = [] \<or> startsWith trimmed ''#'' then Returns st
         else
           (case section_match trimmed of
              Some name \<Rightarrow> descend (split_on CHR ''.'' name) (fst st, AtPath [])
            | None \<Rightarrow>
                (case kv_match trimmed of
                   Some (k, v) \<Rightarrow> bind (coerce (trim v)) (\<lambda>value. assign (trim k) value st)
                 | None \<Rightarrow> Returns st)))"

fun toml_lines :: "string list \<Rightarrow> jsval \<times> section_ref \<Rightarrow> (jsval \<times> section_ref) outcome" where
  "toml_lines [] st = Returns st"
| "toml_lines (l # ls) st = bind (toml_line l st) (toml_lines ls)"

definition parseToml :: "string \<Rightarrow> jsval outcome" where
  "parseToml content =
     bind (toml_lines (split_on CHR 0x0A content) (JObj [], AtPath []))
       (\<lambda>st. Returns (fst st))"

text \<open>
  What the parser keeps true of its state: the result is an object, and a reference names
  an object in it. So the last case of \<open>descend\<close> at a reference is never taken.
\<close>

definition is_object :: "jsval \<Rightarrow> bool" where
  "is_object v = (case v of JObj kvs \<Rightarrow> True | _ \<Rightarrow> False)"

definition ref_ok :: "jsval \<times> section_ref \<Rightarrow> bool" where
  "ref_ok st =
     (is_object (fst st)
      \<and> (case snd st of AtPath p \<Rightarrow> is_object (get_path p (fst st)) | _ \<Rightarrow> True))"

section \<open>analyzeStructure\<close>

record structure_record =
  hasTests :: bool
  hasDocs :: bool
  hasExamples :: bool
  hasSrc :: bool
  hasLib :: bool
  hasBin :: bool
  hasConfig :: bool
  hasCI :: bool
  mainFiles :: "string list"
  directories :: "string list"

definition empty_structure :: "structure_record" where
  "empty_structure =
     \<lparr> hasTests = False, hasDocs = False, hasExamples = False, hasSrc = False,
       hasLib = False, hasBin = False, hasConfig = False, hasCI = False,
       mainFiles = [], directories = [] \<rparr>"

definition to_lower_char :: "char \<Rightarrow> char" where
  "to_lower_char c =
     (if c \<in> set ''ABCDEFGHIJKLMNOPQRSTUVWXYZ'' then char_of (of_char c + (32 :: nat)) else c)"


definition toLowerCase :: "string \<Rightarrow> string" where
  "toLowerCase s = map to_lower_char s"

text \<open>
  A directory entry of \<open>readdirSync(dir, { withFileTypes: true })\<close>: its name and
  whether it is a directory. The body of the loop over the entries:
\<close>

type_synonym dirent = "string \<times> bool"

definition scan_entry :: "structure_record \<Rightarrow> dirent \<Rightarrow> structure_record" where
  "scan_entry s e =
     (let name = fst e; isDirectory = snd e in
      if startsWith name ''.'' then
        (if name = ''.github'' \<or> name = ''.gitlab-ci.yml'' then s\<lparr>hasCI := True\<rparr> else s)
      else if isDirectory then
        (let s' = s\<lparr>directories := directories s @ [name]\<rparr>;
             lower = toLowerCase name in
         if lower = ''test'' \<or> lower = ''tests'' \<or> lower = ''__tests__'' \<or> lower = ''spec''
           then s'\<lparr>hasTests := True\<rparr>
         else if lower = ''docs'' \<or> lower = ''documentation'' then s'\<lparr>hasDocs := True\<rparr>
         else if lower = ''examples'' \<or> lower = ''example'' then s'\<lparr>hasExamples := True\<rparr>
         else if lower = ''src'' \<or> lower = ''source'' then s'\<lparr>hasSrc := True\<rparr>
         else if lower = ''lib'' then s'\<lparr>hasLib := True\<rparr>
         else if lower = ''bin'' then s'\<lparr>hasBin := True\<rparr>
         else if lower = ''config'' then s'\<lparr>hasConfig := True\<rparr>
         else s')
      else
        (let lower = toLowerCase name in
         if endsWith lower ''.md'' \<or> lower = ''makefile'' \<or> lower = ''dockerfile''
           then s\<lparr>mainFiles := mainFiles s @ [name]\<rparr>
         else s))"

text \<open>
  The argument is what \<open>readdirSync\<close> gives: the entries, or \<open>None\<close> when it throws,
  which the \<open>catch\<close> turns into the initial record.
\<close>

definition analyzeStructure :: "dirent list option \<Rightarrow> structure_record" where
  "analyzeStructure listing =
     (case listing of
        None \<Rightarrow> empty_structure
      | Some entries \<Rightarrow> foldl scan_entry empty_structure entries)"

text \<open>The condition of claim C4 in the spec's words, for comparison with the code.\<close>

definition ci_child_spec :: "dirent list \<Rightarrow> bool" where
  "ci_child_spec entries =
     list_ex (\<lambda>e. (fst e = ''.github'' \<and> snd e) \<or> (fst e = ''.gitlab-ci.yml'' \<and> \<not> snd e)) entries"

definition is_dot :: "dirent \<Rightarrow> bool" where
  "is_dot e = startsWith (fst e) ''.''"

definition ci_name :: "dirent \<Rightarrow> bool" where
  "ci_name e = (fst e = ''.github'' \<or> fst e = ''.gitlab-ci.yml'')"

definition main_name :: "string \<Rightarrow> bool" where
  "main_name n =
     (endsWith (toLowerCase n) ''.md'' \<or> toLowerCase n = ''makefile''
      \<or> toLowerCase n = ''dockerfile'')"

section \<open>Conversions of values\<close>

definition digit_char :: "nat \<Rightarrow> char" where
  "digit_char d = char_of (48 + d)"

function show_nat :: "nat \<Rightarrow> string" where
  "show_nat n = (if n < 10 then [digit_char n] else show_nat (n div 10) @ [digit_char (n mod 10)])"
  by pat_completeness auto
termination
  by (relation "measure id") auto

definition show_int :: "int \<Rightarrow> string" where
  "show_int i = (if i < 0 then CHR ''-'' # show_nat (nat (- i)) else show_nat (nat i))"

text \<open>
  The conversion to a string that a template literal applies. An array joins its elements
  with commas, \<open>null\<close> and \<open>undefined\<close> elements giving the empty string. A plain object
  gives \<open>[object Object]\<close>, unless it has an own property \<open>toString\<close>: parsed data holds no
  function, so that property is not callable and the conversion throws.
\<close>

fun to_string :: "jsval \<Rightarrow> string outcome"
  and join_elems :: "jsval list \<Rightarrow> string outcome" where
  "to_string JUndefined = Returns ''undefined''"
| "to_string JNull = Returns ''null''"
| "to_string (JBool b) = Returns (if b then ''true'' else ''false'')"
| "to_string (JNum n) = Returns (show_int n)"
| "to_string (JStr s) = Returns s"
| "to_string (JArr xs) = join_elems xs"
| "to_string (JObj kvs) =
     (if own kvs ''toString'' = None then Returns ''[object Object]'' else Throws)"
| "join_elems [] = Returns []"
| "join_elems (x # xs) =
     bind (if x = JNull \<or> x = JUndefined then Returns [] else to_string x)
       (\<lambda>a. if xs = [] then Returns a
            else bind (join_elems xs) (\<lambda>b. Returns (a @ '','' @ b)))"

text \<open>
  The own enumerable properties that \<open>Object.keys\<close>, \<open>Object.assign\<close> and object spread
  read from a value: those of an object, the indexed elements of an array or a string,
  none of any other value.
\<close>

fun indexed :: "nat \<Rightarrow> jsval list \<Rightarrow> (string \<times> jsval) list" where
  "indexed i [] = []"
| "indexed i (x # xs) = (show_nat i, x) # indexed (Suc i) xs"

fun own_props :: "jsval \<Rightarrow> (string \<times> jsval) list" where
  "own_props (JObj kvs) = kvs"
| "own_props (JArr xs) = indexed 0 xs"
| "own_props (JStr s) = indexed 0 (map (\<lambda>c. JStr [c]) s)"
| "own_props v = []"

definition object_keys :: "jsval \<Rightarrow> string list" where
  "object_keys v = map fst (own_props v)"

text \<open>
  \<open>{...a, ...b}\<close> on property lists: the properties of \<open>a\<close>, then each of \<open>b\<close> stored in turn.
  \<open>Object.assign(target, source)\<close> stores with an ordinary assignment, so the inherited
  setter takes the key \<open>__proto__\<close> and no own property appears for it.
\<close>

definition spread :: "(string \<times> jsval) list \<Rightarrow> (string \<times> jsval) list \<Rightarrow> (string \<times> jsval) list" where
  "spread a b = foldl (\<lambda>acc kv. put (fst kv) (snd kv) acc) a b"

definition object_assign :: "(string \<times> jsval) list \<Rightarrow> jsval \<Rightarrow> (string \<times> jsval) list" where
  "object_assign target source =
     spread target (filter (\<lambda>kv. fst kv \<noteq> ''__proto__'') (own_props source))"

section \<open>The project directory\<close>

text \<open>
  What the analyzer sees of the file system. A file is missing (\<open>existsSync\<close> is false),
  present but \<open>readFileSync\<close> throws, or present with its text. For \<open>package.json\<close> the
  content is the value \<open>JSON.parse\<close> returns, and \<open>Unreadable\<close> also stands for a text
  that \<open>JSON.parse\<close> rejects: both throw at the same place.
\<close>

datatype 'a fnode = Missing | Unreadable | Content 'a

record project_dir =
  path :: string
  package_json :: "jsval fnode"
  pyproject_toml :: "string fnode"
  setup_py :: bool
  requirements_txt :: bool
  go_mod :: "string fnode"
  cargo_toml :: "string fnode"
  makefile :: "string fnode"
  listing :: "dirent list option"

section \<open>detectScripts and extractFeatures\<close>

text \<open>
  The lines that \<open>^\<close> sees under the flag \<open>m\<close>: the pieces between line ends.
\<close>

fun js_lines :: "string \<Rightarrow> string list" where
  "js_lines [] = [[]]"
| "js_lines (x # xs) =
     (if is_line_end x then [] # js_lines xs
      else (case js_lines xs of
              [] \<Rightarrow> [[x]]
            | l # ls \<Rightarrow> (x # l) # ls))"

definition is_target_char :: "char \<Rightarrow> bool" where
  "is_target_char c =
     (c \<in> set ''abcdefghijklmnopqrstuvwxyzABCDEFGHIJKLMNOPQRSTUVWXYZ_-'')"

text \<open>\<open>content.match(/^([a-zA-Z_-]+):/gm)\<close>: the matched texts, one per line at most.\<close>

definition target_match :: "string \<Rightarrow> string option" where
  "target_match line =
     (let run = takeWhile is_target_char line
      in if run \<noteq> [] \<and> startsWith (drop (length run) line) '':'' then Some (run @ '':'')
         else None)"

definition makefile_matches :: "string \<Rightarrow> string list" where
  "makefile_matches content = List.map_filter target_match (js_lines content)"

text \<open>\<open>target.replace(':', '')\<close>: the first colon is removed.\<close>

definition remove_colon :: "string \<Rightarrow> string" where
  "remove_colon t =
     takeWhile (\<lambda>c. c \<noteq> CHR '':'') t @ drop 1 (dropWhile (\<lambda>c. c \<noteq> CHR '':'') t)"

definition add_target :: "(string \<times> jsval) list \<Rightarrow> string \<Rightarrow> (string \<times> jsval) list" where
  "add_target scripts target =
     (let name = remove_colon target
      in if \<not> startsWith name ''.'' then put (''make '' @ name) (JStr ''Makefile target'') scripts
         else scripts)"

definition detectScripts :: "project_dir \<Rightarrow> string \<Rightarrow> (string \<times> jsval) list" where
  "detectScripts d projectType =
     (let scripts =
            (if projectType = ''node'' then
               (case package_json d of
                  Content pkg \<Rightarrow>
                    if pkg = JNull then []
                    else if truthy (get_prop pkg ''scripts'')
                      then object_assign [] (get_prop pkg ''scripts'')
                    else []
                | _ \<Rightarrow> [])
             else [])
      in case makefile d of
           Content content \<Rightarrow> foldl add_target scripts (makefile_matches content)
         | _ \<Rightarrow> scripts)"



definition extractFeatures :: "project_dir \<Rightarrow> string \<Rightarrow> string list" where
  "extractFeatures d projectType =
     (let st = analyzeStructure (listing d);
          features =
            (if hasTests st then [''Comprehensive test suite''] else [])
            @ (if hasDocs st then [''Detailed documentation''] else [])
            @ (if hasExamples st then [''Example code included''] else [])
            @ (if hasCI st then [''CI/CD integration''] else [])
            @ (if hasBin st then [''CLI support''] else [])
      in if projectType = ''node'' then
           (case package_json d of
              Content pkg \<Rightarrow>
                if pkg = JNull \<or> pkg = JUndefined then features
                else features
                  @ (if truthy (get_prop pkg ''bin'') then [''Executable CLI tool''] else [])
                  @ (if truthy (js_or (get_prop pkg ''types'') (get_prop pkg ''typings''))
                     then [''TypeScript definitions''] else [])
                  @ (if truthy (get_prop (get_prop pkg ''scripts'') ''test'')
                     then [''Test scripts configured''] else [])
                  @ (if truthy (get_prop (get_prop pkg ''scripts'') ''build'')
                     then [''Build system configured''] else [])
            | _ \<Rightarrow> features)
         else features)"

section \<open>analyzeProject\<close>

text \<open>
  The record under construction. Fields that a manifest can fill hold any value the
  manifest gives (the analyzer checks no types); \<open>type\<close>, \<open>features\<close> and the four
  commands are always strings built by the analyzer itself.
\<close>

record analysis =
  dir :: string
  detected :: bool
  type :: string
  name :: jsval
  description :: jsval
  version :: jsval
  author :: jsval
  license :: jsval
  repository :: jsval
  homepage :: jsval
  "keywords" :: jsval
  dependencies :: "string list"
  devDependencies :: "string list"
  scripts :: jsval
  features :: "string list"
  "structure" :: structure_record
  installCommand :: string
  runCommand :: string
  buildCommand :: string
  testCommand :: string

text \<open>\<open>path.basename\<close> (POSIX): the last piece of the path, trailing slashes ignored.\<close>

definition basename :: "string \<Rightarrow> string" where
  "basename p =
     rev (takeWhile (\<lambda>c. c \<noteq> CHR ''/'') (dropWhile (\<lambda>c. c = CHR ''/'') (rev p)))"

definition initial_analysis :: "string \<Rightarrow> analysis" where
  "initial_analysis p =
     \<lparr> dir = p, detected = False, type = ''unknown'', name = JStr (basename p),
       description = JStr [], version = JStr [], author = JStr [], license = JStr [],
       repository = JStr [], homepage = JStr [], keywords = JArr [],
       dependencies = [], devDependencies = [], scripts = JObj [], features = [],
       structure = empty_structure,
       installCommand = [], runCommand = [], buildCommand = [], testCommand = [] \<rparr>"

text \<open>\<open>typeof x === 'string' ? x : x?.k || ''\<close>\<close>

definition string_or_field :: "jsval \<Rightarrow> string \<Rightarrow> jsval" where
  "string_or_field x k = (case x of JStr s \<Rightarrow> JStr s | _ \<Rightarrow> js_or (get_prop x k) (JStr []))"

text \<open>\<open>Array.isArray(x) ? x[0] : x\<close>\<close>

definition first_if_array :: "jsval \<Rightarrow> jsval" where
  "first_if_array x = (case x of JArr [] \<Rightarrow> JUndefined | JArr (y # ys) \<Rightarrow> y | _ \<Rightarrow> x)"

text \<open>
  The Node probe. Inside the \<open>try\<close>, reading \<open>pkg.name\<close> throws when the manifest is the
  JSON value \<open>null\<close>, and building \<open>runCommand\<close> throws when the interpolated value has no
  string form; the assignments made before the throw stay.
\<close>

definition node_run_command :: "jsval \<Rightarrow> analysis \<Rightarrow> analysis outcome" where
  "node_run_command pkg a =
     (if truthy (get_prop pkg ''bin'') then
        (let binName =
               (case get_prop pkg ''bin'' of
                  JStr s \<Rightarrow> name a
                | b \<Rightarrow> (case object_keys b of [] \<Rightarrow> JUndefined | k # ks \<Rightarrow> JStr k))
         in bind (to_string binName) (\<lambda>s. Returns (a\<lparr>runCommand := ''npx '' @ s\<rparr>)))
      else if truthy (get_prop pkg ''main'') then
        bind (to_string (get_prop pkg ''main'')) (\<lambda>s. Returns (a\<lparr>runCommand := ''node '' @ s\<rparr>))
      else Returns a)"

definition probe_node :: "project_dir \<Rightarrow> analysis \<Rightarrow> analysis" where
  "probe_node d a =
     (case package_json d of
        Content pkg \<Rightarrow>
          (let a1 = a\<lparr>detected := True, type := ''node''\<rparr>
           in if pkg = JNull \<or> pkg = JUndefined then a1
              else
                (let a2 = a1
                       \<lparr>name := js_or (get_prop pkg ''name'') (name a1),
                        description := js_or (get_prop pkg ''description'') (JStr []),
                        version := js_or (get_prop pkg ''version'') (JStr []),
                        author := string_or_field (get_prop pkg ''author'') ''name'',
                        license := js_or (get_prop pkg ''license'') (JStr []),
                        repository := string_or_field (get_prop pkg ''repository'') ''url'',
                        homepage := js_or (get_prop pkg ''homepage'') (JStr []),
                        keywords := js_or (get_prop pkg ''keywords'') (JArr []),
                        dependencies := object_keys (js_or (get_prop pkg ''dependencies'') (JObj [])),
                        devDependencies :=
                          object_keys (js_or (get_prop pkg ''devDependencies'') (JObj [])),
                        scripts := js_or (get_prop pkg ''scripts'') (JObj []),
                        installCommand := ''npm install''\<rparr>
                 in case node_run_command pkg a2 of
                      Returns a3 \<Rightarrow>
                        (let a4 = (if truthy (get_prop (get_prop pkg ''scripts'') ''build'')
                                   then a3\<lparr>buildCommand := ''npm run build''\<rparr> else a3)
                         in if truthy (get_prop (get_prop pkg ''scripts'') ''test'')
                            then a4\<lparr>testCommand := ''npm test''\<rparr> else a4)
                    | _ \<Rightarrow> a2))
      | _ \<Rightarrow> a)"

text \<open>\<open>s.replace(/-/g, '_')\<close>\<close>

definition hyphens_to_underscores :: "string \<Rightarrow> string" where
  "hyphens_to_underscores s = map (\<lambda>c. if c = CHR ''-'' then CHR ''_'' else c) s"

text \<open>
  The Python probe. \<open>parseToml\<close> runs before any assignment, so when it throws the record
  is left as it was. \<open>analysis.name.replace\<close> throws when the name is not a string;
  \<open>testCommand\<close> is then not reached.
\<close>

definition probe_python :: "project_dir \<Rightarrow> analysis \<Rightarrow> analysis outcome" where
  "probe_python d a =
     (case pyproject_toml d of
        Content content \<Rightarrow>
          (case parseToml content of
             Returns toml \<Rightarrow>
               (let a1 = a\<lparr>detected := True, type := ''python''\<rparr>;
                    project = js_or (js_or (get_prop toml ''project'')
                                           (get_prop (get_prop toml ''tool'') ''poetry''))
                                    (JObj []);
                    a2 = a1\<lparr>name := js_or (get_prop project ''name'') (name a1),
                             description := js_or (get_prop project ''description'') (JStr []),
                             version := js_or (get_prop project ''version'') (JStr []),
                             license := js_or (get_prop project ''license'') (JStr []),
                             keywords := js_or (get_prop project ''keywords'') (JArr [])\<rparr>;
                    a3 = (if truthy (get_prop project ''authors'')
                          then a2\<lparr>author := first_if_array (get_prop project ''authors'')\<rparr>
                          else a2);
                    a4 = a3\<lparr>installCommand := ''pip install .''\<rparr>
                in case name a4 of
                     JStr s \<Rightarrow>
                       (let a5 = a4\<lparr>runCommand := ''python -m '' @ hyphens_to_underscores s\<rparr>
                        in Returns (if truthy (get_prop (get_prop toml ''tool'') ''pytest'')
                                    then a5\<lparr>testCommand := ''pytest''\<rparr> else a5))
                   | _ \<Rightarrow> Returns a4)
           | Throws \<Rightarrow> Returns a
           | Unmodelled \<Rightarrow> Unmodelled)
      | Unreadable \<Rightarrow> Returns a
      | Missing \<Rightarrow>
          Returns
            (if setup_py d \<or> requirements_txt d then
               a\<lparr>detected := True, type := ''python'',
                 installCommand :=
                   (if setup_py d then ''pip install .'' else ''pip install -r requirements.txt'')\<rparr>
             else a))"

text \<open>
  \<open>content.match(/module\s+(.+)/)\<close>, first at a fixed position: the word, white space,
  then the rest of the line. When the white space runs to the end of the text, the
  pattern gives back white space until \<open>.+\<close> finds a character that is not a line end.
\<close>

definition module_at :: "string \<Rightarrow> string option" where
  "module_at s =
     (if startsWith s ''module'' then
        (let r = drop 6 s; w = takeWhile is_space r; rest = dropWhile is_space r
         in if w = [] then None
            else if rest \<noteq> [] then Some (takeWhile (\<lambda>c. \<not> is_line_end c) rest)
            else (case filter (\<lambda>c. \<not> is_line_end c) (tl w) of
                    [] \<Rightarrow> None
                  | c # cs \<Rightarrow> Some [last (c # cs)]))
      else None)"

text \<open>The leftmost position where the pattern matches; the result is its group.\<close>

fun module_match :: "string \<Rightarrow> string option" where
  "module_match [] = module_at []"
| "module_match (c # cs) =
     (case module_at (c # cs) of Some g \<Rightarrow> Some g | None \<Rightarrow> module_match cs)"

definition probe_go :: "project_dir \<Rightarrow> analysis \<Rightarrow> analysis" where
  "probe_go d a =
     (case go_mod d of
        Content content \<Rightarrow>
          (let a1 = a\<lparr>detected := True, type := ''go''\<rparr>;
               a2 = (case module_match content of
                       Some g \<Rightarrow>
                         (let modulePath = trim g
                          in a1\<lparr>name := JStr (last (split_on CHR ''/'' modulePath)),
                                repository :=
                                  (if startsWith modulePath ''github.com''
                                   then JStr (''https://'' @ modulePath) else JStr [])\<rparr>)
                     | None \<Rightarrow> a1)
           in a2\<lparr>installCommand := ''go install'', runCommand := ''go run .'',
                 buildCommand := ''go build'', testCommand := ''go test ./...''\<rparr>)
      | _ \<Rightarrow> a)"

definition probe_rust :: "project_dir \<Rightarrow> analysis \<Rightarrow> analysis outcome" where
  "probe_rust d a =
     (case cargo_toml d of
        Content content \<Rightarrow>
          (case parseToml content of
             Returns toml \<Rightarrow>
               (let a1 = a\<lparr>detected := True, type := ''rust''\<rparr>;
                    pkg = js_or (get_prop toml ''package'') (JObj []);
                    a2 = a1\<lparr>name := js_or (get_prop pkg ''name'') (name a1),
                             description := js_or (get_prop pkg ''description'') (JStr []),
                             version := js_or (get_prop pkg ''version'') (JStr []),
                             license := js_or (get_prop pkg ''license'') (JStr []),
                             repository := js_or (get_prop pkg ''repository'') (JStr []),
                             homepage := js_or (get_prop pkg ''homepage'') (JStr []),
                             keywords := js_or (get_prop pkg ''keywords'') (JArr [])\<rparr>;
                    a3 = (if truthy (get_prop pkg ''authors'')
                          then a2\<lparr>author := first_if_array (get_prop pkg ''authors'')\<rparr>
                          else a2)
                in Returns (a3\<lparr>installCommand := ''cargo install --path .'',
                                 runCommand := ''cargo run'',
                                 buildCommand := ''cargo build --release'',
                                 testCommand := ''cargo test''\<rparr>))
           | Throws \<Rightarrow> Returns a
           | Unmodelled \<Rightarrow> Unmodelled)
      | _ \<Rightarrow> Returns a)"

text \<open>The probes in their fixed order, then structure, features and scripts.\<close>

definition finish :: "project_dir \<Rightarrow> analysis \<Rightarrow> analysis" where
  "finish d a =
     a\<lparr>structure := analyzeStructure (listing d),
       features := extractFeatures d (type a),
       scripts := JObj (spread (own_props (scripts a)) (detectScripts d (type a)))\<rparr>"

definition analyzeProject :: "project_dir \<Rightarrow> analysis outcome" where
  "analyzeProject d =
     bind (probe_python d (probe_node d (initial_analysis (path d))))
       (\<lambda>a. bind (probe_rust d (probe_go d a)) (\<lambda>a'. Returns (finish d a')))"

section \<open>The generator\<close>

text \<open>\<open>lines.join('\n')\<close>\<close>

fun join_lines :: "string list \<Rightarrow> string" where
  "join_lines [] = []"
| "join_lines [l] = l"
| "join_lines (l # m # ls) = l @ CHR 0x0A # join_lines (m # ls)"





text \<open>
  \<open>/github\.com[\/:]([^\/]+\/[^\/\.]+)/\<close> at a fixed position, then at the leftmost
  position where it matches: owner, slash, and the name up to the next slash or dot.
\<close>

definition repo_at :: "string \<Rightarrow> string option" where
  "repo_at s =
     (if startsWith s ''github.com'' then
        (case drop 10 s of
           [] \<Rightarrow> None
         | sep # r \<Rightarrow>
             if sep = CHR ''/'' \<or> sep = CHR '':'' then
               (let owner = takeWhile (\<lambda>c. c \<noteq> CHR ''/'') r;
                    r' = dropWhile (\<lambda>c. c \<noteq> CHR ''/'') r;
                    nm = takeWhile (\<lambda>c. c \<noteq> CHR ''/'' \<and> c \<noteq> CHR ''.'') (drop 1 r')
                in if owner \<noteq> [] \<and> r' \<noteq> [] \<and> nm \<noteq> [] then Some (owner @ ''/'' @ nm)
                   else None)
             else None)
      else None)"

fun repo_match :: "string \<Rightarrow> string option" where
  "repo_match [] = repo_at []"
| "repo_match (c # cs) =
     (case repo_at (c # cs) of Some g \<Rightarrow> Some g | None \<Rightarrow> repo_match cs)"






definition fence :: "string \<Rightarrow> string" where
  "fence lang = ''```'' @ lang"







text \<open>
  \<open>describeScript\<close>: the fixed table, else the first 50 characters of the script, which
  only a string has. A name outside the table that the table object inherits is outside
  the model.
\<close>

definition descriptions :: "(string \<times> string) list" where
  "descriptions =
     [(''test'', ''Run tests''), (''build'', ''Build the project''),
      (''start'', ''Start the application''), (''dev'', ''Run in development mode''),
      (''lint'', ''Run linter''), (''format'', ''Format code'')]"

definition describeScript :: "string \<Rightarrow> jsval \<Rightarrow> string outcome" where
  "describeScript nm script =
     (case map_of descriptions nm of
        Some text \<Rightarrow> Returns text
      | None \<Rightarrow>
          if nm \<in> set inherited_names then Unmodelled
          else (case script of JStr s \<Rightarrow> Returns (take 50 s) | _ \<Rightarrow> Throws))"

text \<open>The rows of the command table: the loop over \<open>Object.entries(analysis.scripts)\<close>.\<close>

fun script_rows :: "(string \<times> jsval) list \<Rightarrow> string list outcome" where
  "script_rows [] = Returns []"
| "script_rows ((nm, script) # rest) =
     (if nm \<noteq> ''test'' \<and> nm \<noteq> ''build'' \<and> nm \<noteq> ''start'' then script_rows rest
      else bind (describeScript nm script) (\<lambda>text.
           bind (script_rows rest) (\<lambda>rows.
             Returns ((''| `npm run '' @ nm @ ''` | '' @ text @ '' |'') # rows))))"

text \<open>The two parts of \<open>generateApi\<close>: the command table and the CLI options.\<close>

definition command_table :: "analysis \<Rightarrow> string list outcome" where
  "command_table a =
     (if type a = ''node'' \<and> truthy (scripts a) \<and> object_keys (scripts a) \<noteq> [] then
        bind (script_rows (own_props (scripts a))) (\<lambda>rows.
          Returns ([''| Command | Description |'', ''|---------|-------------|'']
                   @ rows @ ['''']))
      else Returns [])"

definition cli_options :: "analysis \<Rightarrow> string list outcome" where
  "cli_options a =
     (if js_includes (runCommand a) ''npx'' \<or> hasBin (structure a) then
        bind (to_string (name a)) (\<lambda>n.
          Returns [''### CLI Options'', '''', fence '''', n @ '' [options]'', '''',
                   ''Options:'', ''  -h, --help     Show help message'',
                   ''  -v, --version  Show version number'', fence ''''])
      else Returns [])"

definition generateApi :: "analysis \<Rightarrow> string outcome" where
  "generateApi a =
     bind (command_table a) (\<lambda>table.
     bind (cli_options a) (\<lambda>cli.
       Returns (join_lines ([''### Available Commands'', ''''] @ table @ cli))))"








section \<open>Reading results, and directories for evaluation\<close>

text \<open>A field of the record an operation returns.\<close>

definition field :: "('a \<Rightarrow> 'b) \<Rightarrow> 'a outcome \<Rightarrow> 'b outcome" where
  "field f r = bind r (\<lambda>a. Returns (f a))"

definition empty_dir :: "string \<Rightarrow> project_dir" where
  "empty_dir p =
     \<lparr> path = p, package_json = Missing, pyproject_toml = Missing,
       setup_py = False, requirements_txt = False, go_mod = Missing, cargo_toml = Missing,
       makefile = Missing, listing = Some [] \<rparr>"



text \<open>A \<open>go.mod\<close> whose module path ends in a slash.\<close>

definition go_trailing_slash_dir :: "project_dir" where
  "go_trailing_slash_dir =
     (empty_dir ''/work/widget'') \<lparr> go_mod := Content ''module example.com/widget/'' \<rparr>"



text \<open>The rows of the command table as C8 describes them: one for each shown script.\<close>

definition shown_script :: "string \<Rightarrow> bool" where
  "shown_script nm = (nm = ''test'' \<or> nm = ''build'' \<or> nm = ''start'')"

definition script_row :: "string \<Rightarrow> string \<Rightarrow> string" where
  "script_row nm text = ''| `npm run '' @ nm @ ''` | '' @ text @ '' |''"


text \<open>A node record with the scripts \<open>test\<close>, \<open>build\<close>, \<open>lint\<close> and \<open>start\<close>.\<close>

definition four_scripts_record :: "analysis" where
  "four_scripts_record =
     (initial_analysis ''/work/app'')
       \<lparr> type := ''node'',
         scripts := JObj [(''test'', JStr ''jest''), (''build'', JStr ''tsc''),
                          (''lint'', JStr ''eslint .''), (''start'', JStr ''node .'')] \<rparr>"

text \<open>The same without \<open>start\<close>.\<close>

definition three_scripts_record :: "analysis" where
  "three_scripts_record =
     (initial_analysis ''/work/app'')
       \<lparr> type := ''node'',
         scripts := JObj [(''test'', JStr ''jest''), (''build'', JStr ''tsc''),
                          (''lint'', JStr ''eslint .'')] \<rparr>"


section \<open>Verified properties\<close>

subsection \<open>The manifest parser\<close>

text \<open>
  C6: on the text \<open>[a.b]\<close>, \<open>key = "v"\<close> (two lines, each ended by a line feed) the parser
  returns an object whose path a, b holds \<open>key\<close> bound to the string \<open>v\<close>; the line
  \<open>flag = true\<close> stores the boolean true and the line \<open>count = 5\<close> stores the number 5,
  each alone and both in one text.
\<close>

theorem parseToml_examples:
  "parseToml (''[a.b]'' @ [CHR 0x0A] @ ''key = \"v\"'' @ [CHR 0x0A])
     = Returns (JObj [(''a'', JObj [(''b'', JObj [(''key'', JStr ''v'')])])])
   \<and> parseToml ''flag = true'' = Returns (JObj [(''flag'', JBool True)])
   \<and> parseToml ''count = 5'' = Returns (JObj [(''count'', JNum 5)])
   \<and> parseToml (''flag = true'' @ [CHR 0x0A] @ ''count = 5'')
     = Returns (JObj [(''flag'', JBool True), (''count'', JNum 5)])"
  by code_simp

text \<open>
  C7: the parser does not return on every text. After \<open>a = 5\<close> the section header
  \<open>[a.b.c]\<close> walks into the number 5, finds \<open>undefined\<close> under \<open>b\<close> and reads a
  property of it, which throws.
\<close>

theorem parseToml_throws:
  "parseToml (''a = 5'' @ [CHR 0x0A] @ ''[a.b.c]'') = Throws"
  by code_simp

subsection \<open>The structure scanner\<close>

lemma scan_entry_dot:
  "is_dot e \<Longrightarrow> scan_entry s e = (if ci_name e then s\<lparr>hasCI := True\<rparr> else s)"
  by (simp add: scan_entry_def is_dot_def ci_name_def Let_def)

lemma scan_entry_hasCI_upd:
  "\<not> is_dot e \<Longrightarrow> scan_entry (s\<lparr>hasCI := b\<rparr>) e = (scan_entry s e)\<lparr>hasCI := b\<rparr>"
  by (simp add: scan_entry_def is_dot_def Let_def)

lemma scan_entry_hasCI_keep:
  "\<not> is_dot e \<Longrightarrow> hasCI (scan_entry s e) = hasCI s"
  by (simp add: scan_entry_def is_dot_def Let_def)

lemma ci_name_is_dot: "ci_name e \<Longrightarrow> is_dot e"
  by (auto simp: ci_name_def is_dot_def startsWith_def)

lemma foldl_scan_hasCI_upd:
  "\<forall>e \<in> set es. \<not> is_dot e \<Longrightarrow>
   foldl scan_entry (s\<lparr>hasCI := b\<rparr>) es = (foldl scan_entry s es)\<lparr>hasCI := b\<rparr>"
  by (induction es arbitrary: s) (simp_all add: scan_entry_hasCI_upd)

lemma foldl_scan_split:
  "foldl scan_entry s es =
   (foldl scan_entry s (filter (\<lambda>e. \<not> is_dot e) es))\<lparr>hasCI := hasCI s \<or> list_ex ci_name es\<rparr>"
proof (induction es arbitrary: s)
  case Nil
  show ?case by simp
next
  case (Cons e es)
  show ?case
  proof (cases "is_dot e")
    case False
    then have "\<not> ci_name e" using ci_name_is_dot by blast
    with False Cons[of "scan_entry s e"] show ?thesis
      by (simp add: scan_entry_hasCI_keep)
  next
    case True
    show ?thesis
    proof (cases "ci_name e")
      case False
      with True Cons[of s] show ?thesis by (simp add: scan_entry_dot)
    next
      case c: True
      have "foldl scan_entry (s\<lparr>hasCI := True\<rparr>) es =
            (foldl scan_entry (s\<lparr>hasCI := True\<rparr>) (filter (\<lambda>e. \<not> is_dot e) es))\<lparr>hasCI := True\<rparr>"
        using Cons[of "s\<lparr>hasCI := True\<rparr>"] by simp
      also have "\<dots> = (foldl scan_entry s (filter (\<lambda>e. \<not> is_dot e) es))\<lparr>hasCI := True\<rparr>"
        by (simp add: foldl_scan_hasCI_upd)
      finally show ?thesis using True c by (simp add: scan_entry_dot)
    qed
  qed
qed

lemma scan_entry_directories:
  "directories (scan_entry s e) = directories s @ (if \<not> is_dot e \<and> snd e then [fst e] else [])"
  unfolding scan_entry_def is_dot_def Let_def
  by (cases "startsWith (fst e) ''.''"; cases "snd e"; simp)

lemma foldl_scan_directories:
  "directories (foldl scan_entry s es) =
   directories s @ map fst (filter (\<lambda>e. \<not> is_dot e \<and> snd e) es)"
  by (induction es arbitrary: s) (simp_all add: scan_entry_directories)

lemma scan_entry_mainFiles:
  "mainFiles (scan_entry s e) =
   mainFiles s @ (if \<not> is_dot e \<and> \<not> snd e \<and> main_name (fst e) then [fst e] else [])"
  unfolding scan_entry_def is_dot_def Let_def main_name_def
  by (cases "startsWith (fst e) ''.''"; cases "snd e"; simp)

lemma foldl_scan_mainFiles:
  "mainFiles (foldl scan_entry s es) =
   mainFiles s @ map fst (filter (\<lambda>e. \<not> is_dot e \<and> \<not> snd e \<and> main_name (fst e)) es)"
  by (induction es arbitrary: s) (simp_all add: scan_entry_mainFiles)

text \<open>
  C4, as the code has it: \<open>hasCI\<close> is true exactly when some immediate child, file or
  directory, is named \<open>.github\<close> or \<open>.gitlab-ci.yml\<close>; apart from that flag the record is the
  one of the children whose names do not start with a dot, so \<open>directories\<close> holds the
  directories among those and \<open>mainFiles\<close> the files among those with a main-file name.
\<close>

theorem analyzeStructure_dot_children:
  "hasCI (analyzeStructure (Some es)) = list_ex ci_name es
   \<and> analyzeStructure (Some es) =
       (analyzeStructure (Some (filter (\<lambda>e. \<not> is_dot e) es)))\<lparr>hasCI := list_ex ci_name es\<rparr>
   \<and> directories (analyzeStructure (Some es)) = map fst (filter (\<lambda>e. \<not> is_dot e \<and> snd e) es)
   \<and> mainFiles (analyzeStructure (Some es)) =
       map fst (filter (\<lambda>e. \<not> is_dot e \<and> \<not> snd e \<and> main_name (fst e)) es)"
proof -
  have a: "foldl scan_entry empty_structure es =
      (foldl scan_entry empty_structure (filter (\<lambda>e. \<not> is_dot e) es))\<lparr>hasCI := list_ex ci_name es\<rparr>"
    using foldl_scan_split[of empty_structure es] by (simp add: empty_structure_def)
  have b: "hasCI (foldl scan_entry empty_structure es) = list_ex ci_name es"
    by (subst a) simp
  have c: "directories empty_structure = []" "mainFiles empty_structure = []"
    by (simp_all add: empty_structure_def)
  show ?thesis
    using a b by (simp add: analyzeStructure_def foldl_scan_directories foldl_scan_mainFiles c)
qed

text \<open>
  C4 as stated fails: a plain file named \<open>.github\<close> sets \<open>hasCI\<close>, although no child is a
  directory named \<open>.github\<close> or a file named \<open>.gitlab-ci.yml\<close>.
\<close>

theorem analyzeStructure_file_named_github:
  "hasCI (analyzeStructure (Some [(''.github'', False)])) \<noteq> ci_child_spec [(''.github'', False)]"
  by (simp add: analyzeStructure_def scan_entry_def ci_child_spec_def startsWith_def
      empty_structure_def)

subsection \<open>Makefile targets\<close>

lemma own_put: "own (put k v kvs) k' = (if k' = k then Some v else own kvs k')"
  by (induction kvs) auto











subsection \<open>The analyzer\<close>







text \<open>
  C5: the name can be empty. The Go probe stores the last piece of the module path
  without the fallback \<open>|| analysis.name\<close> of the other probes, so a module path
  that ends in a slash gives the empty name; and the base name of the root directory is
  empty from the start.
\<close>

theorem analyzeProject_empty_name:
  "field name (analyzeProject go_trailing_slash_dir) = Returns (JStr [])
   \<and> field name (analyzeProject (empty_dir ''/'')) = Returns (JStr [])"
  by code_simp

subsection \<open>The generator\<close>



lemma script_rows_filter:
  "script_rows kvs =
     Returns (map (\<lambda>k. script_row k (the (map_of descriptions k)))
                  (filter shown_script (map fst kvs)))"
  by (induction kvs)
     (auto simp: describeScript_def descriptions_def shown_script_def script_row_def)

lemma own_mem: "(own kvs k \<noteq> None) = (k \<in> set (map fst kvs))"
  by (induction kvs) auto

text \<open>
  C8, as the code has it: for a node record whose scripts object has the keys \<open>test\<close>,
  \<open>build\<close> and \<open>lint\<close> and no key \<open>start\<close>, the command table has exactly two rows, the
  one of \<open>test\<close> and the one of \<open>build\<close>, and \<open>generateApi\<close> puts that table under its
  heading. In general the rows are those of the keys \<open>test\<close>, \<open>build\<close> and \<open>start\<close>, in
  the order of the object; every other name is left out.
\<close>

theorem command_table_test_build:
  assumes "type a = ''node''" and "scripts a = JObj kvs" and "distinct (map fst kvs)"
    and "own kvs ''test'' \<noteq> None" and "own kvs ''build'' \<noteq> None"
    and "own kvs ''lint'' \<noteq> None" and "own kvs ''start'' = None"
  shows "\<exists>rows.
      command_table a =
        Returns ([''| Command | Description |'', ''|---------|-------------|''] @ rows @ [''''])
      \<and> length rows = 2
      \<and> set rows = {script_row ''test'' ''Run tests'', script_row ''build'' ''Build the project''}
      \<and> rows = map (\<lambda>k. script_row k (the (map_of descriptions k)))
                    (filter shown_script (map fst kvs))
      \<and> generateApi a =
          bind (cli_options a) (\<lambda>cli. Returns (join_lines
            ([''### Available Commands'', '''',
              ''| Command | Description |'', ''|---------|-------------|''] @ rows @ [''''] @ cli)))"
proof -
  let ?keys = "filter shown_script (map fst kvs)"
  let ?rows = "map (\<lambda>k. script_row k (the (map_of descriptions k))) ?keys"
  have mem: "''test'' \<in> set (map fst kvs)" "''build'' \<in> set (map fst kvs)"
    "''start'' \<notin> set (map fst kvs)"
    using assms(4,5,7) own_mem[of kvs "''test''"] own_mem[of kvs "''build''"]
      own_mem[of kvs "''start''"] by simp_all
  have "set ?keys = {k \<in> set (map fst kvs). k = ''test'' \<or> k = ''build'' \<or> k = ''start''}"
    unfolding shown_script_def by (simp only: set_filter)
  also have "\<dots> = {''test'', ''build''}"
    using mem by blast
  finally have ks: "set ?keys = {''test'', ''build''}" .
  have "distinct ?keys" using assms(3) by simp
  then have "card (set ?keys) = length ?keys" by (rule distinct_card)
  then have "length ?keys = 2" unfolding ks by simp
  then have len: "length ?rows = 2" by (simp only: length_map)
  have "set ?rows = (\<lambda>k. script_row k (the (map_of descriptions k))) ` set ?keys"
    by simp
  then have st: "set ?rows = {script_row ''test'' ''Run tests'', script_row ''build'' ''Build the project''}"
    unfolding ks by (simp add: descriptions_def)
  have ne: "kvs \<noteq> []" using mem by auto
  have tab: "command_table a =
        Returns ([''| Command | Description |'', ''|---------|-------------|''] @ ?rows @ [''''])"
    using assms(1,2) ne by (simp add: command_table_def object_keys_def script_rows_filter)
  have api: "generateApi a =
          bind (cli_options a) (\<lambda>cli. Returns (join_lines
            ([''### Available Commands'', '''',
              ''| Command | Description |'', ''|---------|-------------|''] @ ?rows @ [''''] @ cli)))"
    unfolding generateApi_def tab by simp
  show ?thesis using tab len st api by blast
qed

theorem command_table_test_build_witness:
  "command_table three_scripts_record =
     Returns [''| Command | Description |'', ''|---------|-------------|'',
              script_row ''test'' ''Run tests'', script_row ''build'' ''Build the project'', '''']"
proof -
  let ?kvs = "[(''test'', JStr ''jest''), (''build'', JStr ''tsc''), (''lint'', JStr ''eslint .'')]"
  have 1: "type three_scripts_record = ''node''"
    and 2: "scripts three_scripts_record = JObj ?kvs"
    by (simp_all add: three_scripts_record_def initial_analysis_def)
  have 3: "distinct (map fst ?kvs)" by simp
  have 4: "own ?kvs ''test'' \<noteq> None" "own ?kvs ''build'' \<noteq> None" "own ?kvs ''lint'' \<noteq> None"
    "own ?kvs ''start'' = None" by simp_all
  from command_table_test_build [OF 1 2 3 4]
  obtain rows where t: "command_table three_scripts_record =
        Returns ([''| Command | Description |'', ''|---------|-------------|''] @ rows @ [''''])"
    and r: "rows = map (\<lambda>k. script_row k (the (map_of descriptions k)))
                    (filter shown_script (map fst ?kvs))"
    by blast
  have "rows = [script_row ''test'' ''Run tests'', script_row ''build'' ''Build the project'']"
    unfolding r by (simp add: shown_script_def descriptions_def)
  with t show ?thesis by simp
qed

text \<open>
  C8 as stated fails when the scripts also hold \<open>start\<close>: the record has the keys
  \<open>test\<close>, \<open>build\<close> and \<open>lint\<close>, and the table has three rows.
\<close>

theorem command_table_with_start:
  "type four_scripts_record = ''node''
   \<and> object_keys (scripts four_scripts_record) = [''test'', ''build'', ''lint'', ''start'']
   \<and> command_table four_scripts_record =
     Returns [''| Command | Description |'', ''|---------|-------------|'',
              script_row ''test'' ''Run tests'', script_row ''build'' ''Build the project'',
              script_row ''start'' ''Start the application'', '''']"
  by (simp add: four_scripts_record_def initial_analysis_def command_table_def object_keys_def
      script_row_def describeScript_def descriptions_def)
















lemma repo_match_widget: "repo_match ''https://github.com/acme/widget'' = Some ''acme/widget''"
  by code_simp


lemma includes_widget: "js_includes ''https://github.com/acme/widget'' ''github.com''"
  by code_simp






subsection \<open>The state of the parser\<close>

text \<open>
  The parser's reference always names an object of the result, so \<open>descend\<close> never
  takes its last case at a reference, and what \<open>parseToml\<close> returns is an object.
\<close>

lemma get_path_undefined: "get_path q JUndefined = JUndefined"
  by (cases q) simp_all

lemma get_path_append: "get_path (p @ q) v = get_path q (get_path p v)"
proof (induction p arbitrary: v)
  case Nil
  show ?case by simp
next
  case (Cons x xs)
  show ?case
    by (cases v) (simp_all add: get_path_undefined Cons split: option.splits)
qed

lemma is_objectE: "is_object v \<Longrightarrow> (\<And>kvs. v = JObj kvs \<Longrightarrow> P) \<Longrightarrow> P"
  by (cases v) (simp_all add: is_object_def)

lemma set_path_object: "is_object v \<Longrightarrow> is_object (set_path p k x v)"
  by (cases p; cases v) (simp_all add: is_object_def split: option.splits)

lemma get_set_path:
  "is_object (get_path p v) \<Longrightarrow>
   get_path p (set_path p k x v) = JObj (put k x (own_props (get_path p v)))"
proof (induction p arbitrary: v)
  case Nil
  then show ?case by (auto elim: is_objectE)
next
  case (Cons q qs)
  show ?case
  proof (cases v)
    case (JObj kvs)
    show ?thesis
    proof (cases "own kvs q")
      case None
      with Cons.prems JObj show ?thesis by (simp add: is_object_def)
    next
      case (Some c)
      with Cons.prems JObj have "is_object (get_path qs c)" by simp
      from Cons.IH[OF this] show ?thesis using JObj Some by (simp add: own_put)
    qed
  qed (use Cons.prems in \<open>simp_all add: is_object_def\<close>)
qed
lemma ref_ok_child:
  assumes "get_path p res = JObj kvs" and "own kvs part = Some (JObj kvs')"
  shows "is_object (get_path (p @ [part]) res)"
  using assms by (simp add: get_path_append is_object_def)

lemma ref_ok_new:
  assumes "is_object res" and "get_path p res = JObj kvs"
  shows "ref_ok (set_path p part (JObj []) res, AtPath (p @ [part]))"
proof -
  have "is_object (get_path p res)" using assms(2) by (simp add: is_object_def)
  then have "get_path p (set_path p part (JObj []) res) = JObj (put part (JObj []) kvs)"
    using get_set_path assms(2) by simp
  then have "get_path (p @ [part]) (set_path p part (JObj []) res) = JObj []"
    by (simp add: get_path_append own_put)
  then have b: "is_object (get_path (p @ [part]) (set_path p part (JObj []) res))"
    by (simp add: is_object_def)
  have a: "is_object (set_path p part (JObj []) res)"
    by (rule set_path_object[OF assms(1)])
  show ?thesis by (simp add: ref_ok_def a b)
qed

lemma descend_ref_ok:
  "ref_ok st \<Longrightarrow> descend parts st = Returns st' \<Longrightarrow> ref_ok st'"
proof (induction parts arbitrary: st st')
  case Nil
  then show ?case by simp
next
  case (Cons part parts)
  obtain res cur where st: "st = (res, cur)" by (cases st)
  show ?case
  proof (cases cur)
    case Undef
    with Cons.prems(2) st show ?thesis by simp
  next
    case (Prim v)
    with Cons.prems st have "descend parts (res, Undef) = Returns st'"
      by (simp split: if_splits)
    moreover have "ref_ok (res, Undef)"
      using Cons.prems(1) st by (simp add: ref_ok_def)
    ultimately show ?thesis using Cons.IH by blast
  next
    case (AtPath p)
    from Cons.prems(1) st AtPath have obj: "is_object res" "is_object (get_path p res)"
      by (simp_all add: ref_ok_def)
    then obtain kvs where kvs: "get_path p res = JObj kvs" by (auto elim: is_objectE)
    let ?new = "(set_path p part (JObj []) res, AtPath (p @ [part]))"
    have new: "ref_ok ?new" by (rule ref_ok_new[OF obj(1) kvs])
    have "\<exists>nxt. ref_ok nxt \<and> descend parts nxt = Returns st'"
    proof (cases "own kvs part")
      case None
      with Cons.prems(2) st AtPath kvs have "descend parts ?new = Returns st'"
        by (simp split: if_splits)
      with new show ?thesis by blast
    next
      case (Some v)
      show ?thesis
      proof (cases "truthy v")
        case False
        with Cons.prems(2) st AtPath kvs Some have "descend parts ?new = Returns st'"
          by simp
        with new show ?thesis by blast
      next
        case True
        show ?thesis
        proof (cases "is_object v")
          case t: True
          then obtain kvs' where v: "v = JObj kvs'" by (auto elim: is_objectE)
          with Cons.prems(2) st AtPath kvs Some True
          have "descend parts (res, AtPath (p @ [part])) = Returns st'" by simp
          moreover have "ref_ok (res, AtPath (p @ [part]))"
            using obj(1) ref_ok_child[OF kvs Some[unfolded v]] by (simp add: ref_ok_def)
          ultimately show ?thesis by blast
        next
          case f: False
          with Cons.prems(2) st AtPath kvs Some True
          have "descend parts (res, Prim v) = Returns st'"
            by (cases v) (simp_all add: is_object_def)
          moreover have "ref_ok (res, Prim v)" using obj(1) by (simp add: ref_ok_def)
          ultimately show ?thesis by blast
        qed
      qed
    qed
    then show ?thesis using Cons.IH by blast
  qed
qed

lemma assign_ref_ok:
  "ref_ok st \<Longrightarrow> assign key v st = Returns st' \<Longrightarrow> ref_ok st'"
proof -
  assume ok: "ref_ok st" and a: "assign key v st = Returns st'"
  obtain res cur where st: "st = (res, cur)" by (cases st)
  show ?thesis
  proof (cases cur)
    case (AtPath p)
    from ok st AtPath have obj: "is_object res" "is_object (get_path p res)"
      by (simp_all add: ref_ok_def)
    from a st AtPath have st': "st' = (set_path p key v res, AtPath p)"
      by (simp split: if_splits)
    have "is_object (get_path p (set_path p key v res))"
      using get_set_path[OF obj(2)] by (simp add: is_object_def)
    then show ?thesis
      unfolding st' by (simp add: ref_ok_def set_path_object[OF obj(1)])
  next
    case (Prim x)
    with a st ok show ?thesis by auto
  next
    case Undef
    with a st show ?thesis by simp
  qed
qed

lemma bind_Returns: "(bind r f = Returns y) = (\<exists>x. r = Returns x \<and> f x = Returns y)"
  by (cases r) simp_all

lemma toml_line_ref_ok:
  assumes "ref_ok st" and "toml_line line st = Returns st'"
  shows "ref_ok st'"
proof -
  have root: "ref_ok (fst st, AtPath [])"
    using assms(1) by (simp add: ref_ok_def)
  let ?t = "trim line"
  show ?thesis
  proof (cases "?t = [] \<or> startsWith ?t ''#''")
    case True
    with assms show ?thesis by (simp add: toml_line_def Let_def)
  next
    case skip: False
    show ?thesis
    proof (cases "section_match ?t")
      case (Some nm)
      with skip assms(2) have "descend (split_on CHR ''.'' nm) (fst st, AtPath []) = Returns st'"
        by (simp add: toml_line_def Let_def)
      with root show ?thesis by (rule descend_ref_ok)
    next
      case None
      show ?thesis
      proof (cases "kv_match ?t")
        case n: None
        with None skip assms show ?thesis by (simp add: toml_line_def Let_def)
      next
        case (Some kv)
        obtain k v where kv: "kv = (k, v)" by (cases kv)
        from Some kv None skip assms(2)
        have "bind (coerce (trim v)) (\<lambda>value. assign (trim k) value st) = Returns st'"
          by (simp add: toml_line_def Let_def)
        then obtain x where "assign (trim k) x st = Returns st'"
          unfolding bind_Returns by blast
        with assms(1) show ?thesis by (rule assign_ref_ok)
      qed
    qed
  qed
qed


lemma toml_lines_ref_ok:
  "ref_ok st \<Longrightarrow> toml_lines ls st = Returns st' \<Longrightarrow> ref_ok st'"
proof (induction ls arbitrary: st)
  case Nil
  then show ?case by simp
next
  case (Cons l ls)
  from Cons.prems(2) have "bind (toml_line l st) (toml_lines ls) = Returns st'"
    by simp
  then obtain mid where m: "toml_line l st = Returns mid" "toml_lines ls mid = Returns st'"
    unfolding bind_Returns by blast
  have "ref_ok mid" by (rule toml_line_ref_ok[OF Cons.prems(1) m(1)])
  then show ?case using m(2) by (rule Cons.IH)
qed

lemma parseToml_object: "parseToml content = Returns v \<Longrightarrow> is_object v"
proof -
  assume "parseToml content = Returns v"
  then obtain st where st: "toml_lines (split_on CHR 0x0A content) (JObj [], AtPath []) = Returns st"
    and v: "Returns (fst st) = Returns v"
    unfolding parseToml_def bind_Returns by blast
  have "ref_ok (JObj [], AtPath [])" by (simp add: ref_ok_def is_object_def)
  then have "ref_ok st" using st by (rule toml_lines_ref_ok)
  then have "is_object (fst st)" by (simp add: ref_ok_def)
  with v show ?thesis by simp
qed

end
